theory Spec2Isabelle
  imports Main "HOL-Library.Word"
begin

section \<open>The dispatcher of src/SubtleCrypto.js\<close>

text \<open>
  The class \<open>SubtleCrypto\<close> is the public surface of the service: every method normalizes an
  algorithm descriptor, checks the key against the operation and calls a method of the
  normalized algorithm object. The file being verified holds the dispatcher only; the
  registry (\<open>./algorithms\<close>), the key classes (\<open>./keys/...\<close>), the usage vocabulary and the
  codecs are required from elsewhere and appear here as the fields of a record of parameters.
  The methods modelled are encrypt, decrypt, sign, verify, digest, importKey, exportKey,
  wrapKey and unwrapKey; \<open>generateKey\<close> and the two \<open>derive\<close> stubs call none of them and are
  left out.
\<close>

subsection \<open>Octets and the caller's buffers\<close>

text \<open>
  A \<open>BufferSource\<close> argument is a reference to memory the caller keeps and may overwrite
  after the method has returned. The caller's memory is therefore given at every instant;
  instant \<open>0\<close> is the synchronous part of the call (a promise executor runs synchronously).

  The dispatcher calls the argument's own \<open>slice()\<close>, and what that does depends on what the
  argument is:
  \<^item> \<open>Caller a\<close> is an ArrayBuffer or a typed array at address \<open>a\<close>: \<open>slice()\<close> allocates a
    buffer nobody else holds, which is a value, \<open>Copy\<close>;
  \<^item> \<open>NodeBuffer a\<close> is a Node.js \<open>Buffer\<close> at address \<open>a\<close>, a \<open>Uint8Array\<close> whose \<open>slice()\<close>
    returns a new \<open>Buffer\<close> on the same memory;
  \<^item> \<open>Copy bs\<close> is a buffer the caller has no reference to.
  A \<open>DataView\<close>, which has no \<open>slice\<close>, is not among the arguments modelled.
\<close>

type_synonym octets = "8 word list"
type_synonym address = nat
type_synonym memory = "address \<Rightarrow> octets"
type_synonym timeline = "nat \<Rightarrow> memory"

text \<open>What a reader of one buffer finds in it at each instant.\<close>

type_synonym observed = "nat \<Rightarrow> octets"

datatype BufferSource = Caller address | NodeBuffer address | Copy octets

fun view :: "timeline \<Rightarrow> BufferSource \<Rightarrow> observed" where
  "view W (Caller a) = (\<lambda>t. W t a)"
| "view W (NodeBuffer a) = (\<lambda>t. W t a)"
| "view W (Copy bs) = (\<lambda>t. bs)"

fun slice :: "timeline \<Rightarrow> BufferSource \<Rightarrow> BufferSource" where
  "slice W (Caller a) = Copy (W 0 a)"
| "slice W (NodeBuffer a) = NodeBuffer a"
| "slice W (Copy bs) = Copy bs"

subsection \<open>Errors, promises and the trace of a call\<close>

datatype error =
    InvalidAccessError string
  | NotSupportedError string
  | SyntaxError string
  | TypeError string
  | DataError string
  | OperationError string

fun is_InvalidAccessError :: "error \<Rightarrow> bool" where
  "is_InvalidAccessError (InvalidAccessError m) = True"
| "is_InvalidAccessError e = False"

text \<open>The state in which a promise ends: \<open>Pending\<close> is a promise nothing ever settles.\<close>

datatype 'a promise = Resolved 'a | Rejected error | Pending

fun settle :: "error + 'a \<Rightarrow> 'a promise" where
  "settle (Inl e) = Rejected e"
| "settle (Inr v) = Resolved v"

datatype operation =
    Encrypt | Decrypt | Sign | Verify | Digest | GenerateKey | DeriveKey | DeriveBits
  | ImportKey | ExportKey | WrapKey | UnwrapKey

type_synonym members = "(string \<times> string) list"

text \<open>
  An algorithm object: what \<open>supportedAlgorithms.normalize\<close> returns and what a key carries
  as \<open>key.algorithm\<close>. \<open>methods\<close> lists the members such as \<open>normalizedAlgorithm['wrapKey']\<close>
  that are functions; what they compute is a parameter (\<open>environment\<close> below).
\<close>

record Algorithm =
  name :: string
  members :: members
  methods :: "operation list"

record CryptoKey =
  type :: string
  extractable :: bool
  algorithm :: Algorithm
  usages :: "string list"
  handle :: octets

text \<open>An \<open>AlgorithmIdentifier\<close>: a string, a dictionary, or \<open>undefined\<close> when the argument is not passed.\<close>

datatype AlgorithmIdentifier = Name string | Dictionary members | NotGiven

text \<open>
  Key material: a buffer, an instance of the class \<open>JsonWebKey\<close>, a plain object (such as
  \<open>JSON.parse\<close> returns), or \<open>undefined\<close>. The parameter is the representation of buffers.
\<close>

datatype 'b material = Buffer 'b | JsonWebKey members | Object members | Undefined

fun is_JsonWebKey :: "'b material \<Rightarrow> bool" where
  "is_JsonWebKey (JsonWebKey j) = True"
| "is_JsonWebKey m = False"

text \<open>
  What a call does besides settling its promise, in order: the public methods entered,
  the calls of \<open>supportedAlgorithms.normalize\<close>, the methods of algorithm objects that were
  called, and what was printed on the console.
\<close>

datatype event =
    Entered operation
  | Normalized operation AlgorithmIdentifier
  | Invoked Algorithm operation
  | Logged error
  | Logged_bytes members

fun is_Invoked :: "event \<Rightarrow> bool" where
  "is_Invoked (Invoked a c) = True"
| "is_Invoked e = False"

type_synonym 'a run = "event list \<times> 'a promise"

definition after :: "event list \<Rightarrow> 'a run \<Rightarrow> 'a run" where
  "after es r = (es @ fst r, snd r)"

subsection \<open>What the file requires from elsewhere\<close>

text \<open>
  \<^item> \<open>normalize\<close> is \<open>supportedAlgorithms.normalize(op, alg)\<close>, which returns an \<open>Error\<close> or an
    algorithm object;
  \<^item> \<open>registered op n\<close> says that \<open>supportedAlgorithms[op][n]\<close> is truthy;
  \<^item> \<open>recognizedKeyUsages_normalize\<close> is \<open>recognizedKeyUsages.normalize\<close>;
  \<^item> \<open>new_JsonWebKey\<close> is the constructor of \<open>JsonWebKey\<close>: it throws or yields the members of
    the new instance;
  \<^item> \<open>JSON_stringify\<close>, \<open>JSON_parse\<close>, \<open>TextEncoder_encode\<close>, \<open>TextDecoder_decode\<close> are the codecs;
  \<^item> \<open>do_encrypt a\<close> ... \<open>do_wrapKey a\<close> are the methods of the algorithm object \<open>a\<close>, with the
    arguments the dispatcher passes. Each throws or returns. A buffer argument is handed
    over as what the method finds in it whenever it reads it.
\<close>

record environment =
  normalize :: "operation \<Rightarrow> AlgorithmIdentifier \<Rightarrow> error + Algorithm"
  registered :: "operation \<Rightarrow> string \<Rightarrow> bool"
  recognizedKeyUsages_normalize :: "string list \<Rightarrow> error + string list"
  new_JsonWebKey :: "observed material \<Rightarrow> error + members"
  JSON_stringify :: "octets material \<Rightarrow> string"
  JSON_parse :: "string \<Rightarrow> error + members"
  TextEncoder_encode :: "string \<Rightarrow> octets"
  TextDecoder_decode :: "octets \<Rightarrow> string"
  do_encrypt :: "Algorithm \<Rightarrow> AlgorithmIdentifier \<Rightarrow> CryptoKey \<Rightarrow> observed \<Rightarrow> error + octets"
  do_decrypt :: "Algorithm \<Rightarrow> AlgorithmIdentifier \<Rightarrow> CryptoKey \<Rightarrow> observed \<Rightarrow> error + octets"
  do_sign :: "Algorithm \<Rightarrow> CryptoKey \<Rightarrow> observed \<Rightarrow> error + octets"
  do_verify :: "Algorithm \<Rightarrow> CryptoKey \<Rightarrow> observed \<Rightarrow> observed \<Rightarrow> error + bool"
  do_digest :: "Algorithm \<Rightarrow> AlgorithmIdentifier \<Rightarrow> observed \<Rightarrow> error + octets"
  do_importKey :: "Algorithm \<Rightarrow> string \<Rightarrow> observed material \<Rightarrow> AlgorithmIdentifier \<Rightarrow> bool
                     \<Rightarrow> string list \<Rightarrow> error + CryptoKey"
  do_exportKey :: "Algorithm \<Rightarrow> string \<Rightarrow> CryptoKey \<Rightarrow> error + octets material"
  do_wrapKey :: "Algorithm \<Rightarrow> AlgorithmIdentifier \<Rightarrow> CryptoKey \<Rightarrow> observed \<Rightarrow> error + octets"

subsection \<open>encrypt, decrypt, sign, verify, digest\<close>

text \<open>
  A \<open>throw\<close> inside a promise executor rejects the promise, and so does a call of a member
  that is not a function (a \<open>TypeError\<close> of the engine).
\<close>

definition encrypt ::
  "environment \<Rightarrow> timeline \<Rightarrow> AlgorithmIdentifier \<Rightarrow> CryptoKey \<Rightarrow> BufferSource \<Rightarrow> octets run" where
  \<open>encrypt env W alg key data =
    (let data = slice W data in
     after [Entered Encrypt, Normalized Encrypt alg]
      (case normalize env Encrypt alg of
         Inl failure \<Rightarrow> ([], Rejected failure)
       | Inr normalizedAlgorithm \<Rightarrow>
           if name normalizedAlgorithm \<noteq> name (algorithm key)
           then ([], Rejected (InvalidAccessError ''Algorithm does not match key''))
           else if ''encrypt'' \<notin> set (usages key)
           then ([], Rejected (InvalidAccessError ''Key usages must include "encrypt"''))
           else if Encrypt \<notin> set (methods normalizedAlgorithm)
           then ([], Rejected (TypeError ''normalizedAlgorithm.encrypt is not a function''))
           else ([Invoked normalizedAlgorithm Encrypt],
                 settle (do_encrypt env normalizedAlgorithm alg key (view W data)))))\<close>

definition decrypt ::
  "environment \<Rightarrow> timeline \<Rightarrow> AlgorithmIdentifier \<Rightarrow> CryptoKey \<Rightarrow> BufferSource \<Rightarrow> octets run" where
  \<open>decrypt env W alg key data =
    after [Entered Decrypt, Normalized Decrypt alg]
     (case normalize env Decrypt alg of
        Inl failure \<Rightarrow> ([], Rejected failure)
      | Inr normalizedAlgorithm \<Rightarrow>
          (let data = slice W data in
           if name normalizedAlgorithm \<noteq> name (algorithm key)
           then ([], Rejected (InvalidAccessError ''Algorithm does not match key''))
           else if ''decrypt'' \<notin> set (usages key)
           then ([], Rejected (InvalidAccessError ''Key usages must include "decrypt"''))
           else if Decrypt \<notin> set (methods normalizedAlgorithm)
           then ([], Rejected (TypeError ''normalizedAlgorithm.decrypt is not a function''))
           else ([Invoked normalizedAlgorithm Decrypt],
                 settle (do_decrypt env normalizedAlgorithm alg key (view W data)))))\<close>

definition sign ::
  "environment \<Rightarrow> timeline \<Rightarrow> AlgorithmIdentifier \<Rightarrow> CryptoKey \<Rightarrow> BufferSource \<Rightarrow> octets run" where
  \<open>sign env W alg key data =
    (let data = slice W data in
     after [Entered Sign, Normalized Sign alg]
      (case normalize env Sign alg of
         Inl failure \<Rightarrow> ([], Rejected failure)
       | Inr normalizedAlgorithm \<Rightarrow>
           if name normalizedAlgorithm \<noteq> name (algorithm key)
           then ([], Rejected (InvalidAccessError ''Algorithm does not match key''))
           else if ''sign'' \<notin> set (usages key)
           then ([], Rejected (InvalidAccessError ''Key usages must include "sign"''))
           else if Sign \<notin> set (methods normalizedAlgorithm)
           then ([], Rejected (TypeError ''normalizedAlgorithm.sign is not a function''))
           else ([Invoked normalizedAlgorithm Sign],
                 settle (do_sign env normalizedAlgorithm key (view W data)))))\<close>

definition verify ::
  "environment \<Rightarrow> timeline \<Rightarrow> AlgorithmIdentifier \<Rightarrow> CryptoKey \<Rightarrow> BufferSource \<Rightarrow> BufferSource
     \<Rightarrow> bool run" where
  \<open>verify env W alg key signature data =
    (let signature = slice W signature in
     after [Entered Verify, Normalized Verify alg]
      (case normalize env Verify alg of
         Inl failure \<Rightarrow> ([], Rejected failure)
       | Inr normalizedAlgorithm \<Rightarrow>
           (let data = slice W data in
            if name normalizedAlgorithm \<noteq> name (algorithm key)
            then ([], Rejected (InvalidAccessError ''Algorithm does not match key''))
            else if ''verify'' \<notin> set (usages key)
            then ([], Rejected (InvalidAccessError ''Key usages must include "verify"''))
            else if Verify \<notin> set (methods normalizedAlgorithm)
            then ([], Rejected (TypeError ''normalizedAlgorithm.verify is not a function''))
            else ([Invoked normalizedAlgorithm Verify],
                  settle (do_verify env normalizedAlgorithm key (view W signature) (view W data))))))\<close>

definition digest ::
  "environment \<Rightarrow> timeline \<Rightarrow> AlgorithmIdentifier \<Rightarrow> BufferSource \<Rightarrow> octets run" where
  \<open>digest env W alg data =
    (let data = slice W data in
     after [Entered Digest, Normalized Digest alg]
      (case normalize env Digest alg of
         Inl failure \<Rightarrow> ([], Rejected failure)
       | Inr normalizedAlgorithm \<Rightarrow>
           if Digest \<notin> set (methods normalizedAlgorithm)
           then ([], Rejected (TypeError ''normalizedAlgorithm.digest is not a function''))
           else ([Invoked normalizedAlgorithm Digest],
                 settle (do_digest env normalizedAlgorithm alg (view W data)))))\<close>

subsection \<open>importKey and exportKey\<close>

text \<open>
  The first two blocks of the executor of \<open>importKey\<close> rebind \<open>keyData\<close>. For one of the three
  octet formats an instance of \<open>JsonWebKey\<close> is refused and anything else is sliced, which
  throws when the value has no \<open>slice\<close>. For \<open>jwk\<close> the value is passed to the constructor
  of \<open>JsonWebKey\<close> and the result is then tested with \<open>instanceof\<close>.
\<close>

definition importKey_octets :: "timeline \<Rightarrow> string \<Rightarrow> BufferSource material \<Rightarrow> error + BufferSource material" where
  "importKey_octets W format keyData =
    (if format = ''raw'' \<or> format = ''pkcs8'' \<or> format = ''spki''
     then (case keyData of
             JsonWebKey j \<Rightarrow> Inl (TypeError [])
           | Buffer b \<Rightarrow> Inr (Buffer (slice W b))
           | Object j \<Rightarrow> Inl (TypeError ''keyData.slice is not a function'')
           | Undefined \<Rightarrow> Inl (TypeError ''keyData is undefined''))
     else Inr keyData)"

definition importKey_jwk ::
  "environment \<Rightarrow> timeline \<Rightarrow> string \<Rightarrow> BufferSource material \<Rightarrow> error + BufferSource material" where
  "importKey_jwk env W format keyData =
    (if format = ''jwk''
     then (case new_JsonWebKey env (map_material (view W) keyData) of
             Inl thrown \<Rightarrow> Inl thrown
           | Inr j \<Rightarrow>
               (let keyData = JsonWebKey j in
                if \<not> is_JsonWebKey keyData then Inl (TypeError ''key is not a JSON Web Key'')
                else Inr keyData))
     else Inr keyData)"

definition importKey ::
  "environment \<Rightarrow> timeline \<Rightarrow> string \<Rightarrow> BufferSource material \<Rightarrow> AlgorithmIdentifier \<Rightarrow> bool
     \<Rightarrow> string list \<Rightarrow> CryptoKey run" where
  "importKey env W format keyData alg extractable' keyUsages =
    after [Entered ImportKey, Normalized ImportKey alg]
     (case normalize env ImportKey alg of
        Inl failure \<Rightarrow> ([], Rejected failure)
      | Inr normalizedAlgorithm \<Rightarrow>
          (case importKey_octets W format keyData of
             Inl thrown \<Rightarrow> ([], Rejected thrown)
           | Inr keyData \<Rightarrow>
               (case importKey_jwk env W format keyData of
                  Inl thrown \<Rightarrow> ([], Rejected thrown)
                | Inr keyData \<Rightarrow>
                    if ImportKey \<notin> set (methods normalizedAlgorithm)
                    then ([], Rejected (TypeError ''normalizedAlgorithm.importKey is not a function''))
                    else after [Invoked normalizedAlgorithm ImportKey]
                      (case do_importKey env normalizedAlgorithm format (map_material (view W) keyData)
                              alg extractable' keyUsages of
                         Inl thrown \<Rightarrow> ([], Rejected thrown)
                       | Inr result \<Rightarrow>
                           if (type result = ''secret'' \<or> type result = ''private'')
                              \<and> length (usages result) = 0
                           then ([], Rejected (SyntaxError []))
                           else (case recognizedKeyUsages_normalize env keyUsages of
                                   Inl thrown \<Rightarrow> ([], Rejected thrown)
                                 | Inr us \<Rightarrow>
                                     ([], Resolved (result\<lparr>extractable := extractable', usages := us\<rparr>)))))))"

definition exportKey :: "environment \<Rightarrow> string \<Rightarrow> CryptoKey \<Rightarrow> octets material run" where
  "exportKey env format key =
    after [Entered ExportKey]
     (if \<not> registered env ExportKey (name (algorithm key))
      then ([], Rejected (NotSupportedError (name (algorithm key))))
      else if extractable key = False
      then ([], Rejected (InvalidAccessError ''Key is not extractable''))
      else if ExportKey \<notin> set (methods (algorithm key))
      then ([], Rejected (TypeError ''key.algorithm.exportKey is not a function''))
      else ([Invoked (algorithm key) ExportKey],
            settle (do_exportKey env (algorithm key) format key)))"

subsection \<open>wrapKey\<close>

text \<open>\<open>new Uint8Array(bytes)\<close>: the octets of a buffer; no element for \<open>undefined\<close> or an object without length.\<close>

fun Uint8Array :: "octets material option \<Rightarrow> octets" where
  "Uint8Array (Some (Buffer bs)) = bs"
| "Uint8Array other = []"

text \<open>
  The promise created once \<open>wrapAlgorithm\<close> is normalized. The four checks throw inside
  \<open>try\<close>, so they reject it. What follows is a chain on the promise of \<open>this.exportKey\<close> that
  ends in \<open>.then(resolve)\<close> with no handler for a rejection: when the export is rejected or
  the method of the algorithm throws, neither \<open>resolve\<close> nor \<open>reject\<close> is ever called.
\<close>

definition wrapKey_promise ::
  "environment \<Rightarrow> string \<Rightarrow> CryptoKey \<Rightarrow> CryptoKey \<Rightarrow> AlgorithmIdentifier \<Rightarrow> Algorithm \<Rightarrow> octets run" where
  \<open>wrapKey_promise env format key wrappingKey wrapAlgorithm normalizedAlgorithm =
    (if name normalizedAlgorithm \<noteq> name (algorithm wrappingKey)
     then ([], Rejected (InvalidAccessError
             ''NormalizedAlgorthm name must be same as wrappingKey algorithm name''))
     else if ''wrapKey'' \<notin> set (usages wrappingKey)
     then ([], Rejected (InvalidAccessError ''Wrapping key usages must include "wrapKey"''))
     else if \<not> registered env ExportKey (name (algorithm key))
     then ([], Rejected (NotSupportedError (name (algorithm key))))
     else if extractable key = False
     then ([], Rejected (InvalidAccessError ''Key is not extractable''))
     else after (fst (exportKey env format key))
       (case snd (exportKey env format key) of
          Pending \<Rightarrow> ([], Pending)
        | Rejected e \<Rightarrow> ([], Pending)
        | Resolved exportedKey \<Rightarrow>
            (let bytes =
               (if format \<in> set [''raw'', ''pkcs8'', ''spki''] then Some exportedKey
                else if format = ''jwk''
                then Some (Buffer (TextEncoder_encode env (JSON_stringify env exportedKey)))
                else None)
             in if WrapKey \<in> set (methods normalizedAlgorithm)
                then after [Invoked normalizedAlgorithm WrapKey]
                  (case do_wrapKey env normalizedAlgorithm wrapAlgorithm wrappingKey
                          (\<lambda>t. Uint8Array bytes) of
                     Inl thrown \<Rightarrow> ([], Pending)
                   | Inr wrapped \<Rightarrow> ([], Resolved wrapped))
                else if Encrypt \<in> set (methods normalizedAlgorithm)
                then after [Invoked normalizedAlgorithm Encrypt]
                  (case do_encrypt env normalizedAlgorithm wrapAlgorithm wrappingKey
                          (\<lambda>t. Uint8Array bytes) of
                     Inl thrown \<Rightarrow> ([], Pending)
                   | Inr wrapped \<Rightarrow> ([], Resolved wrapped))
                else ([], Rejected (NotSupportedError (name normalizedAlgorithm))))))\<close>

definition wrapKey ::
  "environment \<Rightarrow> string \<Rightarrow> CryptoKey \<Rightarrow> CryptoKey \<Rightarrow> AlgorithmIdentifier \<Rightarrow> octets run" where
  "wrapKey env format key wrappingKey wrapAlgorithm =
    after [Entered WrapKey, Normalized WrapKey wrapAlgorithm]
     (case normalize env WrapKey wrapAlgorithm of
        Inr normalizedAlgorithm \<Rightarrow>
          wrapKey_promise env format key wrappingKey wrapAlgorithm normalizedAlgorithm
      | Inl failure \<Rightarrow>
          after [Normalized Encrypt wrapAlgorithm]
           (case normalize env Encrypt wrapAlgorithm of
              Inl failure \<Rightarrow> ([], Rejected failure)
            | Inr normalizedAlgorithm \<Rightarrow>
                wrapKey_promise env format key wrappingKey wrapAlgorithm normalizedAlgorithm))"

subsection \<open>unwrapKey\<close>

text \<open>
  Step 13.1 calls \<open>this.unwrapKey(unwrapAlgorithm, unwrappingKey, wrappedKey)\<close>: the public
  method again, with three arguments. In that call the parameter \<open>format\<close> is the descriptor,
  \<open>wrappedKey\<close> is the key, \<open>unwrappingKey\<close> is the buffer of wrapped octets, and
  \<open>unwrapAlgorithm\<close> and the three parameters after it are \<open>undefined\<close>. The body of \<open>unwrapKey\<close>
  at these bindings: the three normalizations are of \<open>undefined\<close>; if they pass, step 11
  reads \<open>unwrappingKey.algorithm.name\<close> on a buffer, where \<open>algorithm\<close> is \<open>undefined\<close>, and the
  \<open>TypeError\<close> is caught and rejects. (Were \<open>normalize\<close> to answer \<open>undefined\<close> for \<open>undefined\<close>,
  the same step would throw one member earlier, on \<open>normalizedAlgorithm.name\<close>.) The promise
  returned is rejected in every case, so the call goes no deeper and the type of a value it
  would resolve with is left open.
\<close>

definition unwrapKey_reentered_promise :: "environment \<Rightarrow> 'a run" where
  "unwrapKey_reentered_promise env =
    after [Normalized ImportKey NotGiven]
     (case normalize env ImportKey NotGiven of
        Inl failure \<Rightarrow> ([], Rejected failure)
      | Inr normalizedKeyAlgorithm \<Rightarrow>
          ([], Rejected (TypeError ''unwrappingKey.algorithm is undefined'')))"

definition unwrapKey_reentered :: "environment \<Rightarrow> 'a run" where
  "unwrapKey_reentered env =
    after [Entered UnwrapKey, Normalized UnwrapKey NotGiven]
     (case normalize env UnwrapKey NotGiven of
        Inr normalizedAlgorithm \<Rightarrow> unwrapKey_reentered_promise env
      | Inl failure \<Rightarrow>
          after [Normalized Decrypt NotGiven]
           (case normalize env Decrypt NotGiven of
              Inl failure \<Rightarrow> ([], Rejected failure)
            | Inr normalizedAlgorithm \<Rightarrow> unwrapKey_reentered_promise env))"

text \<open>
  Steps 14 to 19: \<open>keyPromise.then(...).then(...).catch(console.log)\<close>. A rejection of
  \<open>keyPromise\<close> and anything thrown in the two callbacks reach the \<open>catch\<close>, which prints the
  error; \<open>resolve\<close> is called at the end of the second callback only and \<open>reject\<close> nowhere.
\<close>

definition unwrapKey_bytes :: "environment \<Rightarrow> string \<Rightarrow> octets \<Rightarrow> error + event list \<times> octets material" where
  "unwrapKey_bytes env format key =
    (if format \<in> set [''raw'', ''pkcs8'', ''spki''] then Inr ([], Buffer key)
     else if format = ''jwk''
     then (case JSON_parse env (TextDecoder_decode env key) of
             Inl thrown \<Rightarrow> Inl thrown
           | Inr j \<Rightarrow> Inr ([Logged_bytes j], Object j))
     else Inr ([], Undefined))"

definition unwrapKey_chain ::
  "environment \<Rightarrow> string \<Rightarrow> Algorithm \<Rightarrow> AlgorithmIdentifier \<Rightarrow> bool \<Rightarrow> string list
     \<Rightarrow> octets run \<Rightarrow> CryptoKey run" where
  "unwrapKey_chain env format normalizedKeyAlgorithm unwrappedKeyAlgorithm extractable' keyUsages
      keyPromise =
    after (fst keyPromise)
     (case snd keyPromise of
        Pending \<Rightarrow> ([], Pending)
      | Rejected e \<Rightarrow> ([Logged e], Pending)
      | Resolved key \<Rightarrow>
          (case unwrapKey_bytes env format key of
             Inl thrown \<Rightarrow> ([Logged thrown], Pending)
           | Inr (printed, bytes) \<Rightarrow>
               after printed
                (if ImportKey \<notin> set (methods normalizedKeyAlgorithm)
                 then ([Logged (TypeError ''normalizedKeyAlgorithm.importKey is not a function'')],
                       Pending)
                 else after [Invoked normalizedKeyAlgorithm ImportKey]
                   (case do_importKey env normalizedKeyAlgorithm format
                           (map_material (\<lambda>bs t. bs) bytes) unwrappedKeyAlgorithm extractable'
                           keyUsages of
                      Inl thrown \<Rightarrow> ([Logged thrown], Pending)
                    | Inr result \<Rightarrow>
                        if (type result = ''secret'' \<or> type result = ''private'')
                           \<and> length (usages result) = 0
                        then ([Logged (SyntaxError ''Usages cannot be empty'')], Pending)
                        else ([], Resolved (result\<lparr>extractable := extractable',
                                                   usages := keyUsages\<rparr>))))))"

text \<open>Steps 6 to 13, once \<open>unwrapAlgorithm\<close> is normalized under \<open>unwrapKey\<close> or \<open>decrypt\<close>.\<close>

definition unwrapKey_promise ::
  "environment \<Rightarrow> timeline \<Rightarrow> string \<Rightarrow> BufferSource \<Rightarrow> CryptoKey \<Rightarrow> AlgorithmIdentifier
     \<Rightarrow> AlgorithmIdentifier \<Rightarrow> bool \<Rightarrow> string list \<Rightarrow> Algorithm \<Rightarrow> CryptoKey run" where
  \<open>unwrapKey_promise env W format wrappedKey unwrappingKey unwrapAlgorithm unwrappedKeyAlgorithm
      extractable' keyUsages normalizedAlgorithm =
    after [Normalized ImportKey unwrapAlgorithm]
     (case normalize env ImportKey unwrapAlgorithm of
        Inl failure \<Rightarrow> ([], Rejected failure)
      | Inr normalizedKeyAlgorithm \<Rightarrow>
          if name normalizedAlgorithm \<noteq> name (algorithm unwrappingKey)
          then ([], Rejected (InvalidAccessError
                  ''NormalizedAlgorthm name must be same as unwrappingKey algorithm name''))
          else if ''unwrapKey'' \<notin> set (usages unwrappingKey)
          then ([], Rejected (InvalidAccessError
                  ''Unwrapping key usages must include "unwrapKey"''))
          else if UnwrapKey \<in> set (methods normalizedAlgorithm)
          then unwrapKey_chain env format normalizedKeyAlgorithm unwrappedKeyAlgorithm
                 extractable' keyUsages (unwrapKey_reentered env)
          else if Decrypt \<in> set (methods normalizedAlgorithm)
          then unwrapKey_chain env format normalizedKeyAlgorithm unwrappedKeyAlgorithm
                 extractable' keyUsages (decrypt env W unwrapAlgorithm unwrappingKey wrappedKey)
          else ([], Rejected (NotSupportedError (name normalizedAlgorithm))))\<close>

definition unwrapKey ::
  "environment \<Rightarrow> timeline \<Rightarrow> string \<Rightarrow> BufferSource \<Rightarrow> CryptoKey \<Rightarrow> AlgorithmIdentifier
     \<Rightarrow> AlgorithmIdentifier \<Rightarrow> bool \<Rightarrow> string list \<Rightarrow> CryptoKey run" where
  "unwrapKey env W format wrappedKey unwrappingKey unwrapAlgorithm unwrappedKeyAlgorithm
      extractable' keyUsages =
    after [Entered UnwrapKey, Normalized UnwrapKey unwrapAlgorithm]
     (case normalize env UnwrapKey unwrapAlgorithm of
        Inr normalizedAlgorithm \<Rightarrow>
          unwrapKey_promise env W format wrappedKey unwrappingKey unwrapAlgorithm
            unwrappedKeyAlgorithm extractable' keyUsages normalizedAlgorithm
      | Inl failure \<Rightarrow>
          after [Normalized Decrypt unwrapAlgorithm]
           (case normalize env Decrypt unwrapAlgorithm of
              Inl failure \<Rightarrow> ([], Rejected failure)
            | Inr normalizedAlgorithm \<Rightarrow>
                unwrapKey_promise env W format wrappedKey unwrappingKey unwrapAlgorithm
                  unwrappedKeyAlgorithm extractable' keyUsages normalizedAlgorithm))"

subsection \<open>What the claims speak of\<close>

fun rejected_with :: "(error \<Rightarrow> bool) \<Rightarrow> 'a promise \<Rightarrow> bool" where
  "rejected_with P (Rejected e) = P e"
| "rejected_with P other = False"

text \<open>The methods of algorithm objects called in a run.\<close>

definition invocations :: "'a run \<Rightarrow> event list" where
  "invocations r = filter is_Invoked (fst r)"

subsection \<open>A registry to run the dispatcher on\<close>

text \<open>
  Five algorithm objects and toy methods for them. The methods read their buffer at
  instant \<open>1\<close>, after the dispatching call has returned.
\<close>

definition AES_GCM :: Algorithm where
  "AES_GCM = \<lparr>name = ''AES-GCM'', members = [],
     methods = [Encrypt, Decrypt, GenerateKey, ImportKey, ExportKey]\<rparr>"

definition AES_KW :: Algorithm where
  "AES_KW = \<lparr>name = ''AES-KW'', members = [],
     methods = [WrapKey, UnwrapKey, GenerateKey, ImportKey, ExportKey]\<rparr>"

definition HMAC :: Algorithm where
  "HMAC = \<lparr>name = ''HMAC'', members = [],
     methods = [Sign, Verify, GenerateKey, ImportKey, ExportKey]\<rparr>"

definition SHA_256 :: Algorithm where
  "SHA_256 = \<lparr>name = ''SHA-256'', members = [], methods = [Digest]\<rparr>"

definition PBKDF2 :: Algorithm where
  "PBKDF2 = \<lparr>name = ''PBKDF2'', members = [], methods = [ImportKey, DeriveBits]\<rparr>"

definition lookup :: "operation \<Rightarrow> string \<Rightarrow> error + Algorithm" where
  "lookup op n =
    (case find (\<lambda>a. name a = n \<and> op \<in> set (methods a)) [AES_GCM, AES_KW, HMAC, SHA_256, PBKDF2] of
       None \<Rightarrow> Inl (NotSupportedError n)
     | Some a \<Rightarrow> Inr a)"

text \<open>
  A string stands for the dictionary with that name; a dictionary needs a \<open>name\<close> that is
  registered for the operation, and its \<open>length\<close>, when it has one, must be a key length.
\<close>

definition example_normalize :: "operation \<Rightarrow> AlgorithmIdentifier \<Rightarrow> error + Algorithm" where
  "example_normalize op alg =
    (case alg of
       Name n \<Rightarrow> lookup op n
     | Dictionary ms \<Rightarrow>
         (case map_of ms ''name'' of
            None \<Rightarrow> Inl (NotSupportedError [])
          | Some n \<Rightarrow>
              (case lookup op n of
                 Inl e \<Rightarrow> Inl e
               | Inr a \<Rightarrow>
                   (case map_of ms ''length'' of
                      None \<Rightarrow> Inr a
                    | Some l \<Rightarrow> if l \<in> set [''128'', ''192'', ''256''] then Inr a
                                else Inl (DataError ''length''))))
     | NotGiven \<Rightarrow> Inl (SyntaxError []))"

definition example_importKey ::
  "Algorithm \<Rightarrow> string \<Rightarrow> observed material \<Rightarrow> AlgorithmIdentifier \<Rightarrow> bool \<Rightarrow> string list
     \<Rightarrow> error + CryptoKey" where
  "example_importKey a format keyData alg ext us =
    (if format \<noteq> ''raw'' \<and> format \<noteq> ''jwk'' then Inl (NotSupportedError format)
     else case keyData of
       Buffer d \<Rightarrow>
         if d 1 = [] then Inl (DataError ''empty key'')
         else Inr \<lparr>type = ''secret'', extractable = ext, algorithm = a, usages = us, handle = d 1\<rparr>
     | JsonWebKey j \<Rightarrow>
         if map_of j ''kty'' \<noteq> Some ''oct'' then Inl (DataError ''kty'')
         else Inr \<lparr>type = ''secret'', extractable = ext, algorithm = a, usages = us, handle = []\<rparr>
     | Object j \<Rightarrow>
         if map_of j ''kty'' \<noteq> Some ''oct'' then Inl (DataError ''kty'')
         else Inr \<lparr>type = ''secret'', extractable = ext, algorithm = a, usages = us, handle = []\<rparr>
     | Undefined \<Rightarrow> Inl (DataError ''no key''))"

definition example :: environment where
  "example =
    \<lparr>normalize = example_normalize,
     registered = (\<lambda>op n. case lookup op n of Inl e \<Rightarrow> False | Inr a \<Rightarrow> True),
     recognizedKeyUsages_normalize =
       (\<lambda>us. if set us \<subseteq> set [''encrypt'', ''decrypt'', ''sign'', ''verify'', ''deriveKey'',
                                 ''deriveBits'', ''wrapKey'', ''unwrapKey'']
             then Inr (remdups us) else Inl (SyntaxError [])),
     new_JsonWebKey = (\<lambda>m. case m of JsonWebKey j \<Rightarrow> Inr j | Object j \<Rightarrow> Inr j | other \<Rightarrow> Inr []),
     JSON_stringify = (\<lambda>m. ''{}''),
     JSON_parse = (\<lambda>s. if s = ''{}'' then Inr [] else Inl (SyntaxError ''JSON'')),
     TextEncoder_encode = map (\<lambda>c. of_nat (of_char c)),
     TextDecoder_decode = map (\<lambda>b. char_of (unat b)),
     do_encrypt = (\<lambda>a alg k d. Inr (rev (d 1))),
     do_decrypt = (\<lambda>a alg k d. if length (d 1) < 2 then Inl (OperationError ''tag'') else Inr (rev (d 1))),
     do_sign = (\<lambda>a k d. Inr (take 2 (d 1))),
     do_verify = (\<lambda>a k s d. Inr (s 1 = take 2 (d 1))),
     do_digest = (\<lambda>a alg d. Inr [of_nat (length (d 1))]),
     do_importKey = example_importKey,
     do_exportKey =
       (\<lambda>a format k. if format = ''raw'' then Inr (Buffer (handle k))
                      else if format = ''jwk'' then Inr (JsonWebKey [(''kty'', ''oct'')])
                      else Inl (NotSupportedError format)),
     do_wrapKey = (\<lambda>a alg k d. Inr (rev (d 1)))\<rparr>"

text \<open>The same registry with a \<open>digest\<close> method that refuses an empty input.\<close>

definition refusing :: environment where
  "refusing = example
    \<lparr>do_digest := (\<lambda>a alg d. if d 1 = [] then Inl (InvalidAccessError ''no data'')
                              else Inr [of_nat (length (d 1))])\<rparr>"

text \<open>A caller who leaves the buffers alone, and one who overwrites them once the call has returned.\<close>

definition quiet :: timeline where
  "quiet = (\<lambda>t a. if a = 0 then [1, 2, 3] else [])"

definition overwriting :: timeline where
  "overwriting = (\<lambda>t a. if t = 0 then quiet 0 a else [])"

definition secret_key :: "Algorithm \<Rightarrow> bool \<Rightarrow> string list \<Rightarrow> CryptoKey" where
  "secret_key a ext us =
    \<lparr>type = ''secret'', extractable = ext, algorithm = a, usages = us, handle = [7, 7]\<rparr>"

section \<open>Properties\<close>

subsection \<open>Traces and the registry of the examples\<close>

lemma invocations_after: "invocations (after es r) = filter is_Invoked es @ invocations r"
  by (simp add: invocations_def after_def)

lemma invocations_plain: "invocations (es, p) = filter is_Invoked es"
  by (simp add: invocations_def)

lemma snd_after: "snd (after es r) = snd r"
  by (simp add: after_def)

lemma fst_after: "fst (after es r) = es @ fst r"
  by (simp add: after_def)

lemmas run_defs = encrypt_def decrypt_def importKey_def importKey_octets_def importKey_jwk_def
  unwrapKey_def unwrapKey_promise_def unwrapKey_chain_def unwrapKey_bytes_def
  unwrapKey_reentered_def unwrapKey_reentered_promise_def after_def

lemma example_simps:
  "normalize example = example_normalize"
  "registered example = (\<lambda>op n. case lookup op n of Inl e \<Rightarrow> False | Inr a \<Rightarrow> True)"
  by (simp_all add: example_def)

lemma lookup_simps:
  "lookup Encrypt ''AES-GCM'' = Inr AES_GCM"
  "lookup Decrypt ''AES-GCM'' = Inr AES_GCM"
  "lookup ImportKey ''AES-GCM'' = Inr AES_GCM"
  "lookup ExportKey ''AES-GCM'' = Inr AES_GCM"
  "lookup WrapKey ''AES-GCM'' = Inl (NotSupportedError ''AES-GCM'')"
  "lookup UnwrapKey ''AES-GCM'' = Inl (NotSupportedError ''AES-GCM'')"
  "lookup Sign ''AES-GCM'' = Inl (NotSupportedError ''AES-GCM'')"
  "lookup Sign ''HMAC'' = Inr HMAC"
  "lookup Verify ''HMAC'' = Inr HMAC"
  "lookup ImportKey ''HMAC'' = Inr HMAC"
  "lookup ExportKey ''HMAC'' = Inr HMAC"
  "lookup Encrypt ''HMAC'' = Inl (NotSupportedError ''HMAC'')"
  "lookup WrapKey ''AES-KW'' = Inr AES_KW"
  "lookup UnwrapKey ''AES-KW'' = Inr AES_KW"
  "lookup ImportKey ''AES-KW'' = Inr AES_KW"
  "lookup ExportKey ''AES-KW'' = Inr AES_KW"
  "lookup Encrypt ''AES-KW'' = Inl (NotSupportedError ''AES-KW'')"
  "lookup Decrypt ''AES-KW'' = Inl (NotSupportedError ''AES-KW'')"
  "lookup Digest ''SHA-256'' = Inr SHA_256"
  "lookup ExportKey ''PBKDF2'' = Inl (NotSupportedError ''PBKDF2'')"
  "lookup ImportKey ''ZZZ'' = Inl (NotSupportedError ''ZZZ'')"
  "lookup Digest ''ZZZ'' = Inl (NotSupportedError ''ZZZ'')"
  by (simp_all add: lookup_def AES_GCM_def AES_KW_def HMAC_def SHA_256_def PBKDF2_def)

lemma names:
  "name AES_GCM = ''AES-GCM''" "name AES_KW = ''AES-KW''" "name HMAC = ''HMAC''"
  "name SHA_256 = ''SHA-256''" "name PBKDF2 = ''PBKDF2''"
  by (simp_all add: AES_GCM_def AES_KW_def HMAC_def SHA_256_def PBKDF2_def)

lemmas example_defs = example_def example_normalize_def example_importKey_def lookup_simps
  secret_key_def quiet_def

subsection \<open>The usage gate\<close>

lemma encrypt_gate:
  "normalize env Encrypt alg = Inr n \<Longrightarrow> ''encrypt'' \<notin> set (usages key) \<Longrightarrow>
     rejected_with is_InvalidAccessError (snd (encrypt env W alg key data))
     \<and> invocations (encrypt env W alg key data) = []"
  by (simp add: encrypt_def Let_def snd_after invocations_after invocations_plain)

lemma decrypt_gate:
  "normalize env Decrypt alg = Inr n \<Longrightarrow> ''decrypt'' \<notin> set (usages key) \<Longrightarrow>
     rejected_with is_InvalidAccessError (snd (decrypt env W alg key data))
     \<and> invocations (decrypt env W alg key data) = []"
  by (simp add: decrypt_def Let_def snd_after invocations_after invocations_plain)

lemma sign_gate:
  "normalize env Sign alg = Inr n \<Longrightarrow> ''sign'' \<notin> set (usages key) \<Longrightarrow>
     rejected_with is_InvalidAccessError (snd (sign env W alg key data))
     \<and> invocations (sign env W alg key data) = []"
  by (simp add: sign_def Let_def snd_after invocations_after invocations_plain)

lemma verify_gate:
  "normalize env Verify alg = Inr n \<Longrightarrow> ''verify'' \<notin> set (usages key) \<Longrightarrow>
     rejected_with is_InvalidAccessError (snd (verify env W alg key signature data))
     \<and> invocations (verify env W alg key signature data) = []"
  by (simp add: verify_def Let_def snd_after invocations_after invocations_plain)

lemma wrapKey_promise_gate:
  "''wrapKey'' \<notin> set (usages wrappingKey) \<Longrightarrow>
     rejected_with is_InvalidAccessError (snd (wrapKey_promise env format key wrappingKey wa n))
     \<and> invocations (wrapKey_promise env format key wrappingKey wa n) = []"
  by (simp add: wrapKey_promise_def invocations_plain)

lemma wrapKey_gate:
  "normalize env WrapKey wa = Inr n \<or> normalize env Encrypt wa = Inr n \<Longrightarrow>
   ''wrapKey'' \<notin> set (usages wrappingKey) \<Longrightarrow>
     rejected_with is_InvalidAccessError (snd (wrapKey env format key wrappingKey wa))
     \<and> invocations (wrapKey env format key wrappingKey wa) = []"
  by (auto simp add: wrapKey_def snd_after invocations_after wrapKey_promise_gate
      split: sum.splits)

lemma unwrapKey_promise_gate:
  "normalize env ImportKey ua = Inr nk \<Longrightarrow> ''unwrapKey'' \<notin> set (usages unwrappingKey) \<Longrightarrow>
     rejected_with is_InvalidAccessError
       (snd (unwrapKey_promise env W format wrappedKey unwrappingKey ua uka ext us n))
     \<and> invocations (unwrapKey_promise env W format wrappedKey unwrappingKey ua uka ext us n) = []"
  by (simp add: unwrapKey_promise_def snd_after invocations_after invocations_plain)

lemma unwrapKey_gate:
  "normalize env UnwrapKey ua = Inr n \<or> normalize env Decrypt ua = Inr n \<Longrightarrow>
   normalize env ImportKey ua = Inr nk \<Longrightarrow>
   ''unwrapKey'' \<notin> set (usages unwrappingKey) \<Longrightarrow>
     rejected_with is_InvalidAccessError
       (snd (unwrapKey env W format wrappedKey unwrappingKey ua uka ext us))
     \<and> invocations (unwrapKey env W format wrappedKey unwrappingKey ua uka ext us) = []"
  by (auto simp add: unwrapKey_def snd_after invocations_after unwrapKey_promise_gate
      split: sum.splits)

text \<open>
  C1. For each of encrypt, decrypt, sign, verify, wrapKey and unwrapKey: when the
  normalization of the operation has succeeded and the usage the operation requires is not
  among the usages of the key (the wrapping or unwrapping key for the last two), the promise
  is rejected with an \<open>InvalidAccessError\<close> and no method of any algorithm object has been
  called. For wrapKey the normalization is the one under \<open>wrapKey\<close> or its fallback under
  \<open>encrypt\<close>; for unwrapKey it is the one under \<open>unwrapKey\<close> or \<open>decrypt\<close> together with the
  one under \<open>importKey\<close> that the method performs before it creates its promise.
\<close>

theorem usage_gate:
  "(normalize env Encrypt alg1 = Inr n1 \<and> ''encrypt'' \<notin> set (usages key1) \<longrightarrow>
      rejected_with is_InvalidAccessError (snd (encrypt env W alg1 key1 data))
      \<and> invocations (encrypt env W alg1 key1 data) = [])
   \<and> (normalize env Decrypt alg2 = Inr n2 \<and> ''decrypt'' \<notin> set (usages key2) \<longrightarrow>
      rejected_with is_InvalidAccessError (snd (decrypt env W alg2 key2 data))
      \<and> invocations (decrypt env W alg2 key2 data) = [])
   \<and> (normalize env Sign alg3 = Inr n3 \<and> ''sign'' \<notin> set (usages key3) \<longrightarrow>
      rejected_with is_InvalidAccessError (snd (sign env W alg3 key3 data))
      \<and> invocations (sign env W alg3 key3 data) = [])
   \<and> (normalize env Verify alg4 = Inr n4 \<and> ''verify'' \<notin> set (usages key4) \<longrightarrow>
      rejected_with is_InvalidAccessError (snd (verify env W alg4 key4 signature data))
      \<and> invocations (verify env W alg4 key4 signature data) = [])
   \<and> ((normalize env WrapKey alg5 = Inr n5 \<or> normalize env Encrypt alg5 = Inr n5)
        \<and> ''wrapKey'' \<notin> set (usages key5) \<longrightarrow>
      rejected_with is_InvalidAccessError (snd (wrapKey env format key key5 alg5))
      \<and> invocations (wrapKey env format key key5 alg5) = [])
   \<and> ((normalize env UnwrapKey alg6 = Inr n6 \<or> normalize env Decrypt alg6 = Inr n6)
        \<and> normalize env ImportKey alg6 = Inr nk \<and> ''unwrapKey'' \<notin> set (usages key6) \<longrightarrow>
      rejected_with is_InvalidAccessError
        (snd (unwrapKey env W format data key6 alg6 keyAlg ext keyUsages))
      \<and> invocations (unwrapKey env W format data key6 alg6 keyAlg ext keyUsages) = [])"
  using encrypt_gate [of env alg1 n1 key1 W data] decrypt_gate [of env alg2 n2 key2 W data]
    sign_gate [of env alg3 n3 key3 W data] verify_gate [of env alg4 n4 key4 W signature data]
    wrapKey_gate [of env alg5 n5 key5 format key]
    unwrapKey_gate [of env alg6 n6 nk key6 W format data keyAlg ext keyUsages]
  by blast

theorem usage_gate_witness:
  "rejected_with is_InvalidAccessError
     (snd (encrypt example quiet (Name ''AES-GCM'') (secret_key AES_GCM True [''decrypt'']) (Caller 0)))
   \<and> invocations (encrypt example quiet (Name ''AES-GCM'') (secret_key AES_GCM True [''decrypt''])
        (Caller 0)) = []
   \<and> rejected_with is_InvalidAccessError
     (snd (decrypt example quiet (Name ''AES-GCM'') (secret_key AES_GCM True [''encrypt'']) (Caller 0)))
   \<and> invocations (decrypt example quiet (Name ''AES-GCM'') (secret_key AES_GCM True [''encrypt''])
        (Caller 0)) = []
   \<and> rejected_with is_InvalidAccessError
     (snd (sign example quiet (Name ''HMAC'') (secret_key HMAC True [''verify'']) (Caller 0)))
   \<and> invocations (sign example quiet (Name ''HMAC'') (secret_key HMAC True [''verify''])
        (Caller 0)) = []
   \<and> rejected_with is_InvalidAccessError
     (snd (verify example quiet (Name ''HMAC'') (secret_key HMAC True [''sign'']) (Caller 1)
            (Caller 0)))
   \<and> invocations (verify example quiet (Name ''HMAC'') (secret_key HMAC True [''sign'']) (Caller 1)
        (Caller 0)) = []
   \<and> rejected_with is_InvalidAccessError
     (snd (wrapKey example ''raw'' (secret_key AES_GCM True [''encrypt''])
            (secret_key AES_KW True [''unwrapKey'']) (Name ''AES-KW'')))
   \<and> invocations (wrapKey example ''raw'' (secret_key AES_GCM True [''encrypt''])
            (secret_key AES_KW True [''unwrapKey'']) (Name ''AES-KW'')) = []
   \<and> rejected_with is_InvalidAccessError
     (snd (unwrapKey example quiet ''raw'' (Caller 0) (secret_key AES_KW True [''wrapKey''])
            (Name ''AES-KW'') (Name ''AES-GCM'') True [''encrypt'']))
   \<and> invocations (unwrapKey example quiet ''raw'' (Caller 0) (secret_key AES_KW True [''wrapKey''])
            (Name ''AES-KW'') (Name ''AES-GCM'') True [''encrypt'']) = []"
  using usage_gate [where env = example and W = quiet and data = "Caller 0"
      and signature = "Caller 1" and format = "''raw''"
      and key = "secret_key AES_GCM True [''encrypt'']"
      and keyAlg = "Name ''AES-GCM''" and ext = True and keyUsages = "[''encrypt'']"
      and ?alg1.0 = "Name ''AES-GCM''" and ?n1.0 = AES_GCM
      and ?key1.0 = "secret_key AES_GCM True [''decrypt'']"
      and ?alg2.0 = "Name ''AES-GCM''" and ?n2.0 = AES_GCM
      and ?key2.0 = "secret_key AES_GCM True [''encrypt'']"
      and ?alg3.0 = "Name ''HMAC''" and ?n3.0 = HMAC
      and ?key3.0 = "secret_key HMAC True [''verify'']"
      and ?alg4.0 = "Name ''HMAC''" and ?n4.0 = HMAC
      and ?key4.0 = "secret_key HMAC True [''sign'']"
      and ?alg5.0 = "Name ''AES-KW''" and ?n5.0 = AES_KW
      and ?key5.0 = "secret_key AES_KW True [''unwrapKey'']"
      and ?alg6.0 = "Name ''AES-KW''" and ?n6.0 = AES_KW and nk = AES_KW
      and ?key6.0 = "secret_key AES_KW True [''wrapKey'']"]
  by (simp add: example_simps example_normalize_def lookup_simps secret_key_def)

subsection \<open>The order of the two checks on the key\<close>

lemma wrapKey_promise_name_first:
  "name n \<noteq> name (algorithm wrappingKey) \<Longrightarrow>
     wrapKey_promise env format key wrappingKey wa n =
       ([], Rejected (InvalidAccessError
              ''NormalizedAlgorthm name must be same as wrappingKey algorithm name''))"
  by (simp add: wrapKey_promise_def)

lemma unwrapKey_promise_name_first:
  "normalize env ImportKey ua = Inr nk \<Longrightarrow> name n \<noteq> name (algorithm unwrappingKey) \<Longrightarrow>
     snd (unwrapKey_promise env W format wrappedKey unwrappingKey ua uka ext us n) =
       Rejected (InvalidAccessError
              ''NormalizedAlgorthm name must be same as unwrappingKey algorithm name'')"
  by (simp add: unwrapKey_promise_def snd_after)

text \<open>
  C9. In encrypt, decrypt, sign, verify, wrapKey and unwrapKey the name of the normalized
  algorithm is compared with the name of the key's algorithm before the usages are looked
  at: for a key whose algorithm name differs and which also lacks the required usage, the
  promise is rejected with the \<open>InvalidAccessError\<close> of the name check (its message is not
  the one of the usage check). The normalized algorithm of wrapKey and unwrapKey is the one
  found under the operation itself or, when that failed, under \<open>encrypt\<close> or \<open>decrypt\<close>.
\<close>

theorem name_check_first:
  "(normalize env Encrypt alg1 = Inr n1 \<and> name n1 \<noteq> name (algorithm key1)
      \<and> ''encrypt'' \<notin> set (usages key1) \<longrightarrow>
      snd (encrypt env W alg1 key1 data) =
        Rejected (InvalidAccessError ''Algorithm does not match key''))
   \<and> (normalize env Decrypt alg2 = Inr n2 \<and> name n2 \<noteq> name (algorithm key2)
      \<and> ''decrypt'' \<notin> set (usages key2) \<longrightarrow>
      snd (decrypt env W alg2 key2 data) =
        Rejected (InvalidAccessError ''Algorithm does not match key''))
   \<and> (normalize env Sign alg3 = Inr n3 \<and> name n3 \<noteq> name (algorithm key3)
      \<and> ''sign'' \<notin> set (usages key3) \<longrightarrow>
      snd (sign env W alg3 key3 data) =
        Rejected (InvalidAccessError ''Algorithm does not match key''))
   \<and> (normalize env Verify alg4 = Inr n4 \<and> name n4 \<noteq> name (algorithm key4)
      \<and> ''verify'' \<notin> set (usages key4) \<longrightarrow>
      snd (verify env W alg4 key4 signature data) =
        Rejected (InvalidAccessError ''Algorithm does not match key''))
   \<and> ((normalize env WrapKey alg5 = Inr n5
         \<or> isl (normalize env WrapKey alg5) \<and> normalize env Encrypt alg5 = Inr n5)
      \<and> name n5 \<noteq> name (algorithm key5) \<and> ''wrapKey'' \<notin> set (usages key5) \<longrightarrow>
      snd (wrapKey env format key key5 alg5) =
        Rejected (InvalidAccessError
          ''NormalizedAlgorthm name must be same as wrappingKey algorithm name''))
   \<and> ((normalize env UnwrapKey alg6 = Inr n6
         \<or> isl (normalize env UnwrapKey alg6) \<and> normalize env Decrypt alg6 = Inr n6)
      \<and> normalize env ImportKey alg6 = Inr nk
      \<and> name n6 \<noteq> name (algorithm key6) \<and> ''unwrapKey'' \<notin> set (usages key6) \<longrightarrow>
      snd (unwrapKey env W format data key6 alg6 keyAlg ext keyUsages) =
        Rejected (InvalidAccessError
          ''NormalizedAlgorthm name must be same as unwrappingKey algorithm name''))"
proof (intro conjI impI)
  assume "normalize env Encrypt alg1 = Inr n1 \<and> name n1 \<noteq> name (algorithm key1)
      \<and> ''encrypt'' \<notin> set (usages key1)"
  then show "snd (encrypt env W alg1 key1 data) =
        Rejected (InvalidAccessError ''Algorithm does not match key'')"
    by (simp add: encrypt_def Let_def snd_after)
next
  assume "normalize env Decrypt alg2 = Inr n2 \<and> name n2 \<noteq> name (algorithm key2)
      \<and> ''decrypt'' \<notin> set (usages key2)"
  then show "snd (decrypt env W alg2 key2 data) =
        Rejected (InvalidAccessError ''Algorithm does not match key'')"
    by (simp add: decrypt_def Let_def snd_after)
next
  assume "normalize env Sign alg3 = Inr n3 \<and> name n3 \<noteq> name (algorithm key3)
      \<and> ''sign'' \<notin> set (usages key3)"
  then show "snd (sign env W alg3 key3 data) =
        Rejected (InvalidAccessError ''Algorithm does not match key'')"
    by (simp add: sign_def Let_def snd_after)
next
  assume "normalize env Verify alg4 = Inr n4 \<and> name n4 \<noteq> name (algorithm key4)
      \<and> ''verify'' \<notin> set (usages key4)"
  then show "snd (verify env W alg4 key4 signature data) =
        Rejected (InvalidAccessError ''Algorithm does not match key'')"
    by (simp add: verify_def Let_def snd_after)
next
  assume "(normalize env WrapKey alg5 = Inr n5
         \<or> isl (normalize env WrapKey alg5) \<and> normalize env Encrypt alg5 = Inr n5)
      \<and> name n5 \<noteq> name (algorithm key5) \<and> ''wrapKey'' \<notin> set (usages key5)"
  then show "snd (wrapKey env format key key5 alg5) =
        Rejected (InvalidAccessError
          ''NormalizedAlgorthm name must be same as wrappingKey algorithm name'')"
    by (auto simp add: wrapKey_def snd_after wrapKey_promise_name_first isl_def)
next
  assume "(normalize env UnwrapKey alg6 = Inr n6
         \<or> isl (normalize env UnwrapKey alg6) \<and> normalize env Decrypt alg6 = Inr n6)
      \<and> normalize env ImportKey alg6 = Inr nk
      \<and> name n6 \<noteq> name (algorithm key6) \<and> ''unwrapKey'' \<notin> set (usages key6)"
  then show "snd (unwrapKey env W format data key6 alg6 keyAlg ext keyUsages) =
        Rejected (InvalidAccessError
          ''NormalizedAlgorthm name must be same as unwrappingKey algorithm name'')"
    by (auto simp add: unwrapKey_def snd_after unwrapKey_promise_name_first isl_def)
qed

theorem name_check_first_witness:
  "snd (encrypt example quiet (Name ''AES-GCM'') (secret_key HMAC True [''sign'']) (Caller 0)) =
     Rejected (InvalidAccessError ''Algorithm does not match key'')
   \<and> snd (decrypt example quiet (Name ''AES-GCM'') (secret_key HMAC True [''sign'']) (Caller 0)) =
     Rejected (InvalidAccessError ''Algorithm does not match key'')
   \<and> snd (sign example quiet (Name ''HMAC'') (secret_key AES_GCM True [''encrypt'']) (Caller 0)) =
     Rejected (InvalidAccessError ''Algorithm does not match key'')
   \<and> snd (verify example quiet (Name ''HMAC'') (secret_key AES_GCM True [''encrypt'']) (Caller 1)
        (Caller 0)) =
     Rejected (InvalidAccessError ''Algorithm does not match key'')
   \<and> snd (wrapKey example ''raw'' (secret_key AES_GCM True [''encrypt''])
            (secret_key HMAC True [''sign'']) (Name ''AES-GCM'')) =
     Rejected (InvalidAccessError
       ''NormalizedAlgorthm name must be same as wrappingKey algorithm name'')
   \<and> snd (unwrapKey example quiet ''raw'' (Caller 0) (secret_key HMAC True [''sign''])
            (Name ''AES-KW'') (Name ''AES-GCM'') True [''encrypt'']) =
     Rejected (InvalidAccessError
       ''NormalizedAlgorthm name must be same as unwrappingKey algorithm name'')"
  using name_check_first [where env = example and W = quiet and data = "Caller 0"
      and signature = "Caller 1" and format = "''raw''"
      and key = "secret_key AES_GCM True [''encrypt'']"
      and keyAlg = "Name ''AES-GCM''" and ext = True and keyUsages = "[''encrypt'']"
      and ?alg1.0 = "Name ''AES-GCM''" and ?n1.0 = AES_GCM
      and ?key1.0 = "secret_key HMAC True [''sign'']"
      and ?alg2.0 = "Name ''AES-GCM''" and ?n2.0 = AES_GCM
      and ?key2.0 = "secret_key HMAC True [''sign'']"
      and ?alg3.0 = "Name ''HMAC''" and ?n3.0 = HMAC
      and ?key3.0 = "secret_key AES_GCM True [''encrypt'']"
      and ?alg4.0 = "Name ''HMAC''" and ?n4.0 = HMAC
      and ?key4.0 = "secret_key AES_GCM True [''encrypt'']"
      and ?alg5.0 = "Name ''AES-GCM''" and ?n5.0 = AES_GCM
      and ?key5.0 = "secret_key HMAC True [''sign'']"
      and ?alg6.0 = "Name ''AES-KW''" and ?n6.0 = AES_KW and nk = AES_KW
      and ?key6.0 = "secret_key HMAC True [''sign'']"]
  by (simp add: example_simps example_normalize_def lookup_simps names secret_key_def)

subsection \<open>digest\<close>

text \<open>
  The claim C10 as it is written has the \<open>digest\<close> method of the algorithm called for every
  descriptor whose name is registered for \<open>digest\<close>, and no rejection with an
  \<open>InvalidAccessError\<close>. The dispatcher calls whatever \<open>normalize\<close> returns and passes on
  whatever the method throws. SHA-256 is registered for \<open>digest\<close>; a descriptor of that name
  with a length the normalization refuses is rejected with nothing called, and a \<open>digest\<close>
  method that throws an \<open>InvalidAccessError\<close> has it delivered as the rejection.
\<close>

theorem digest_counterexample:
  "registered example Digest ''SHA-256''
   \<and> digest example quiet (Dictionary [(''name'', ''SHA-256''), (''length'', ''100'')]) (Caller 0) =
       ([Entered Digest,
         Normalized Digest (Dictionary [(''name'', ''SHA-256''), (''length'', ''100'')])],
        Rejected (DataError ''length''))
   \<and> registered refusing Digest ''SHA-256''
   \<and> digest refusing quiet (Name ''SHA-256'') (Caller 1) =
       ([Entered Digest, Normalized Digest (Name ''SHA-256''), Invoked SHA_256 Digest],
        Rejected (InvalidAccessError ''no data''))"
  by (simp add: digest_def after_def refusing_def example_def example_normalize_def lookup_simps
      SHA_256_def quiet_def)

text \<open>
  C10, amended. \<open>digest\<close> takes no key and makes no check of a key, a usage or
  extractability. For every descriptor that normalizes under \<open>digest\<close> to an algorithm
  object with a \<open>digest\<close> method, and every data input, that method is the one thing called
  after the normalization, on what \<open>data.slice()\<close> gave, and the promise is settled with what
  it returns or throws. When the normalization fails the promise is rejected with its error
  and nothing is called. The dispatcher raises no \<open>InvalidAccessError\<close> of its own: \<open>digest\<close>
  rejects with one exactly when \<open>normalize\<close> returns one or the \<open>digest\<close> method throws one.
\<close>

theorem digest_ungated:
  "(normalize env Digest alg = Inr n \<and> Digest \<in> set (methods n) \<longrightarrow>
      digest env W alg data =
        ([Entered Digest, Normalized Digest alg, Invoked n Digest],
         settle (do_digest env n alg (view W (slice W data)))))
   \<and> (normalize env Digest unknown = Inl failure \<longrightarrow>
      digest env W unknown data =
        ([Entered Digest, Normalized Digest unknown], Rejected failure))
   \<and> rejected_with is_InvalidAccessError (snd (digest env W any data)) =
        (case normalize env Digest any of
           Inl failure \<Rightarrow> is_InvalidAccessError failure
         | Inr normalizedAlgorithm \<Rightarrow>
             Digest \<in> set (methods normalizedAlgorithm)
             \<and> (case do_digest env normalizedAlgorithm any (view W (slice W data)) of
                  Inl thrown \<Rightarrow> is_InvalidAccessError thrown
                | Inr hash \<Rightarrow> False))"
  by (auto simp add: digest_def Let_def after_def split: sum.splits)

theorem digest_ungated_witness:
  "digest example quiet (Name ''SHA-256'') (Caller 0) =
     ([Entered Digest, Normalized Digest (Name ''SHA-256''), Invoked SHA_256 Digest],
      Resolved [3])
   \<and> digest example quiet (Name ''ZZZ'') (Caller 0) =
     ([Entered Digest, Normalized Digest (Name ''ZZZ'')], Rejected (NotSupportedError ''ZZZ''))
   \<and> \<not> rejected_with is_InvalidAccessError
         (snd (digest example quiet (Name ''SHA-256'') (Caller 0)))"
  using digest_ungated [of example "Name ''SHA-256''" SHA_256 quiet "Caller 0" "Name ''ZZZ''"
      "NotSupportedError ''ZZZ''" "Name ''SHA-256''"]
  by (simp add: example_simps example_normalize_def lookup_simps SHA_256_def example_def
      quiet_def)

subsection \<open>Keys that are not extractable\<close>

text \<open>
  The claim C2 as it is written asks for an \<open>InvalidAccessError\<close> from \<open>exportKey\<close> and from
  \<open>wrapKey\<close> for every key that is not extractable. Both methods first look the key's algorithm
  up among those registered for \<open>exportKey\<close>: a key of an algorithm that is not registered
  there, extractable or not, is answered with a \<open>NotSupportedError\<close>.
\<close>

theorem not_extractable_counterexample:
  "extractable (secret_key PBKDF2 False [''deriveBits'']) = False
   \<and> exportKey example ''raw'' (secret_key PBKDF2 False [''deriveBits'']) =
       ([Entered ExportKey], Rejected (NotSupportedError ''PBKDF2''))
   \<and> wrapKey example ''raw'' (secret_key PBKDF2 False [''deriveBits''])
        (secret_key AES_KW True [''wrapKey'']) (Name ''AES-KW'') =
       ([Entered WrapKey, Normalized WrapKey (Name ''AES-KW'')],
        Rejected (NotSupportedError ''PBKDF2''))"
  by (simp add: exportKey_def wrapKey_def wrapKey_promise_def after_def example_simps
      example_normalize_def lookup_simps names secret_key_def)

text \<open>
  C2, amended. For every key with \<open>extractable = false\<close> whose algorithm name is registered
  for \<open>exportKey\<close>, and every format, \<open>exportKey\<close> rejects with the \<open>InvalidAccessError\<close>
  "Key is not extractable" and calls nothing. \<open>wrapKey\<close> of such a key rejects with the same
  error, and calls nothing, when the wrapping algorithm normalizes (under \<open>wrapKey\<close> or, failing
  that, \<open>encrypt\<close>), it has the name of the wrapping key's algorithm and the wrapping key has
  the usage \<open>wrapKey\<close>. When the key's algorithm name is not registered for \<open>exportKey\<close>, both
  methods reject with the \<open>NotSupportedError\<close> of that name instead, under the same conditions
  on the wrapping key, whatever the key's \<open>extractable\<close>.
\<close>

theorem not_extractable:
  "(registered env ExportKey (name (algorithm key)) \<and> extractable key = False \<longrightarrow>
      exportKey env format key =
        ([Entered ExportKey], Rejected (InvalidAccessError ''Key is not extractable'')))
   \<and> ((normalize env WrapKey wrapAlgorithm = Inr n
         \<or> isl (normalize env WrapKey wrapAlgorithm) \<and> normalize env Encrypt wrapAlgorithm = Inr n)
      \<and> name n = name (algorithm wrappingKey) \<and> ''wrapKey'' \<in> set (usages wrappingKey)
      \<and> registered env ExportKey (name (algorithm key)) \<and> extractable key = False \<longrightarrow>
      snd (wrapKey env format key wrappingKey wrapAlgorithm) =
        Rejected (InvalidAccessError ''Key is not extractable'')
      \<and> invocations (wrapKey env format key wrappingKey wrapAlgorithm) = [])
   \<and> (\<not> registered env ExportKey (name (algorithm other)) \<longrightarrow>
      exportKey env format other =
        ([Entered ExportKey], Rejected (NotSupportedError (name (algorithm other)))))
   \<and> ((normalize env WrapKey wrapAlgorithm = Inr n
         \<or> isl (normalize env WrapKey wrapAlgorithm) \<and> normalize env Encrypt wrapAlgorithm = Inr n)
      \<and> name n = name (algorithm wrappingKey) \<and> ''wrapKey'' \<in> set (usages wrappingKey)
      \<and> \<not> registered env ExportKey (name (algorithm other)) \<longrightarrow>
      snd (wrapKey env format other wrappingKey wrapAlgorithm) =
        Rejected (NotSupportedError (name (algorithm other)))
      \<and> invocations (wrapKey env format other wrappingKey wrapAlgorithm) = [])"
proof (intro conjI impI)
  assume "registered env ExportKey (name (algorithm key)) \<and> extractable key = False"
  then show "exportKey env format key =
        ([Entered ExportKey], Rejected (InvalidAccessError ''Key is not extractable''))"
    by (simp add: exportKey_def after_def)
next
  assume h: "(normalize env WrapKey wrapAlgorithm = Inr n
         \<or> isl (normalize env WrapKey wrapAlgorithm) \<and> normalize env Encrypt wrapAlgorithm = Inr n)
      \<and> name n = name (algorithm wrappingKey) \<and> ''wrapKey'' \<in> set (usages wrappingKey)
      \<and> registered env ExportKey (name (algorithm key)) \<and> extractable key = False"
  then have p: "wrapKey_promise env format key wrappingKey wrapAlgorithm n =
      ([], Rejected (InvalidAccessError ''Key is not extractable''))"
    by (simp add: wrapKey_promise_def)
  from h p show "snd (wrapKey env format key wrappingKey wrapAlgorithm) =
        Rejected (InvalidAccessError ''Key is not extractable'')"
    by (auto simp add: wrapKey_def snd_after isl_def)
  from h p show "invocations (wrapKey env format key wrappingKey wrapAlgorithm) = []"
    by (auto simp add: wrapKey_def invocations_after invocations_plain isl_def)
next
  assume "\<not> registered env ExportKey (name (algorithm other))"
  then show "exportKey env format other =
        ([Entered ExportKey], Rejected (NotSupportedError (name (algorithm other))))"
    by (simp add: exportKey_def after_def)
next
  assume h: "(normalize env WrapKey wrapAlgorithm = Inr n
         \<or> isl (normalize env WrapKey wrapAlgorithm) \<and> normalize env Encrypt wrapAlgorithm = Inr n)
      \<and> name n = name (algorithm wrappingKey) \<and> ''wrapKey'' \<in> set (usages wrappingKey)
      \<and> \<not> registered env ExportKey (name (algorithm other))"
  then have p: "wrapKey_promise env format other wrappingKey wrapAlgorithm n =
      ([], Rejected (NotSupportedError (name (algorithm other))))"
    by (simp add: wrapKey_promise_def)
  from h p show "snd (wrapKey env format other wrappingKey wrapAlgorithm) =
        Rejected (NotSupportedError (name (algorithm other)))"
    by (auto simp add: wrapKey_def snd_after isl_def)
  from h p show "invocations (wrapKey env format other wrappingKey wrapAlgorithm) = []"
    by (auto simp add: wrapKey_def invocations_after invocations_plain isl_def)
qed

theorem not_extractable_witness:
  "exportKey example ''jwk'' (secret_key AES_GCM False [''encrypt'']) =
     ([Entered ExportKey], Rejected (InvalidAccessError ''Key is not extractable''))
   \<and> snd (wrapKey example ''jwk'' (secret_key AES_GCM False [''encrypt''])
           (secret_key AES_KW True [''wrapKey'']) (Name ''AES-KW'')) =
     Rejected (InvalidAccessError ''Key is not extractable'')
   \<and> invocations (wrapKey example ''jwk'' (secret_key AES_GCM False [''encrypt''])
           (secret_key AES_KW True [''wrapKey'']) (Name ''AES-KW'')) = []
   \<and> exportKey example ''jwk'' (secret_key PBKDF2 False [''deriveBits'']) =
     ([Entered ExportKey], Rejected (NotSupportedError ''PBKDF2''))
   \<and> snd (wrapKey example ''jwk'' (secret_key PBKDF2 False [''deriveBits''])
           (secret_key AES_KW True [''wrapKey'']) (Name ''AES-KW'')) =
     Rejected (NotSupportedError ''PBKDF2'')
   \<and> invocations (wrapKey example ''jwk'' (secret_key PBKDF2 False [''deriveBits''])
           (secret_key AES_KW True [''wrapKey'']) (Name ''AES-KW'')) = []"
  using not_extractable [of example "secret_key AES_GCM False [''encrypt'']" "''jwk''"
      "Name ''AES-KW''" AES_KW "secret_key AES_KW True [''wrapKey'']"
      "secret_key PBKDF2 False [''deriveBits'']"]
  by (simp add: example_simps example_normalize_def lookup_simps names secret_key_def)

subsection \<open>The fallback of wrapKey\<close>

text \<open>
  The claim C6 as it is written has \<open>wrapKey\<close> reject with the error of the normalization
  under \<open>wrapKey\<close> when the fallback under \<open>encrypt\<close> fails too. The method overwrites
  \<open>normalizedAlgorithm\<close> with the result of the fallback and rejects with that: here the first
  normalization fails on the length and the promise carries the error of the second.
\<close>

theorem wrapKey_fallback_error_counterexample:
  "normalize example WrapKey (Dictionary [(''name'', ''AES-KW''), (''length'', ''100'')]) =
     Inl (DataError ''length'')
   \<and> normalize example Encrypt (Dictionary [(''name'', ''AES-KW''), (''length'', ''100'')]) =
     Inl (NotSupportedError ''AES-KW'')
   \<and> snd (wrapKey example ''raw'' (secret_key AES_GCM True [''encrypt''])
           (secret_key AES_KW True [''wrapKey''])
           (Dictionary [(''name'', ''AES-KW''), (''length'', ''100'')])) =
     Rejected (NotSupportedError ''AES-KW'')"
  by (simp add: wrapKey_def after_def example_simps example_normalize_def lookup_simps)

lemma wrapKey_promise_normalizes_nothing:
  "Normalized op a \<notin> set (fst (wrapKey_promise env format key wrappingKey wa n))"
  by (auto simp add: wrapKey_promise_def exportKey_def after_def Let_def
      split: promise.splits sum.splits)

text \<open>
  C6, amended. \<open>wrapKey\<close> first normalizes \<open>wrapAlgorithm\<close> under \<open>wrapKey\<close>; it normalizes it
  under \<open>encrypt\<close> exactly when that failed; and when both fail the promise is rejected with
  the error of the normalization under \<open>encrypt\<close>, the last one made.
\<close>

theorem wrapKey_fallback:
  "take 2 (fst (wrapKey env format key wrappingKey wrapAlgorithm)) =
     [Entered WrapKey, Normalized WrapKey wrapAlgorithm]
   \<and> (Normalized Encrypt wrapAlgorithm \<in> set (fst (wrapKey env format key wrappingKey wrapAlgorithm)))
       = isl (normalize env WrapKey wrapAlgorithm)
   \<and> (normalize env WrapKey wrapAlgorithm = Inl original
        \<and> normalize env Encrypt wrapAlgorithm = Inl fallback \<longrightarrow>
      wrapKey env format key wrappingKey wrapAlgorithm =
        ([Entered WrapKey, Normalized WrapKey wrapAlgorithm, Normalized Encrypt wrapAlgorithm],
         Rejected fallback))"
  by (auto simp add: wrapKey_def after_def wrapKey_promise_normalizes_nothing isl_def
      split: sum.splits)

theorem wrapKey_fallback_witness:
  "take 2 (fst (wrapKey example ''raw'' (secret_key AES_GCM True [''encrypt''])
      (secret_key AES_KW True [''wrapKey''])
      (Dictionary [(''name'', ''AES-KW''), (''length'', ''100'')]))) =
     [Entered WrapKey, Normalized WrapKey (Dictionary [(''name'', ''AES-KW''), (''length'', ''100'')])]
   \<and> Normalized Encrypt (Dictionary [(''name'', ''AES-KW''), (''length'', ''100'')])
       \<in> set (fst (wrapKey example ''raw'' (secret_key AES_GCM True [''encrypt''])
                  (secret_key AES_KW True [''wrapKey''])
                  (Dictionary [(''name'', ''AES-KW''), (''length'', ''100'')])))
   \<and> wrapKey example ''raw'' (secret_key AES_GCM True [''encrypt''])
       (secret_key AES_KW True [''wrapKey''])
       (Dictionary [(''name'', ''AES-KW''), (''length'', ''100'')]) =
     ([Entered WrapKey,
       Normalized WrapKey (Dictionary [(''name'', ''AES-KW''), (''length'', ''100'')]),
       Normalized Encrypt (Dictionary [(''name'', ''AES-KW''), (''length'', ''100'')])],
      Rejected (NotSupportedError ''AES-KW''))"
  using wrapKey_fallback [of example "''raw''" "secret_key AES_GCM True [''encrypt'']"
      "secret_key AES_KW True [''wrapKey'']"
      "Dictionary [(''name'', ''AES-KW''), (''length'', ''100'')]"
      "DataError ''length''" "NotSupportedError ''AES-KW''"]
  by (simp add: example_simps example_normalize_def lookup_simps)

subsection \<open>The caller's buffers\<close>

text \<open>
  An ArrayBuffer or a typed array is copied: the method of the algorithm is handed the
  octets that were at the address at the instant of the call, whenever it reads them.
\<close>

lemma slice_is_a_copy:
  "slice W (Caller a) = Copy (W 0 a)" "view W (slice W (Caller a)) = (\<lambda>t. W 0 a)"
  by simp_all

lemma encrypt_reads_copy:
  "normalize env Encrypt alg = Inr n \<Longrightarrow> name n = name (algorithm key) \<Longrightarrow>
   ''encrypt'' \<in> set (usages key) \<Longrightarrow> Encrypt \<in> set (methods n) \<Longrightarrow>
     encrypt env W alg key (Caller a) =
       ([Entered Encrypt, Normalized Encrypt alg, Invoked n Encrypt],
        settle (do_encrypt env n alg key (\<lambda>t. W 0 a)))"
  by (simp add: encrypt_def after_def)

lemma decrypt_reads_copy:
  "normalize env Decrypt alg = Inr n \<Longrightarrow> name n = name (algorithm key) \<Longrightarrow>
   ''decrypt'' \<in> set (usages key) \<Longrightarrow> Decrypt \<in> set (methods n) \<Longrightarrow>
     decrypt env W alg key (Caller a) =
       ([Entered Decrypt, Normalized Decrypt alg, Invoked n Decrypt],
        settle (do_decrypt env n alg key (\<lambda>t. W 0 a)))"
  by (simp add: decrypt_def after_def)

lemma sign_reads_copy:
  "normalize env Sign alg = Inr n \<Longrightarrow> name n = name (algorithm key) \<Longrightarrow>
   ''sign'' \<in> set (usages key) \<Longrightarrow> Sign \<in> set (methods n) \<Longrightarrow>
     sign env W alg key (Caller a) =
       ([Entered Sign, Normalized Sign alg, Invoked n Sign],
        settle (do_sign env n key (\<lambda>t. W 0 a)))"
  by (simp add: sign_def after_def)

lemma verify_reads_copies:
  "normalize env Verify alg = Inr n \<Longrightarrow> name n = name (algorithm key) \<Longrightarrow>
   ''verify'' \<in> set (usages key) \<Longrightarrow> Verify \<in> set (methods n) \<Longrightarrow>
     verify env W alg key (Caller s) (Caller a) =
       ([Entered Verify, Normalized Verify alg, Invoked n Verify],
        settle (do_verify env n key (\<lambda>t. W 0 s) (\<lambda>t. W 0 a)))"
  by (simp add: verify_def after_def)

lemma digest_reads_copy:
  "normalize env Digest alg = Inr n \<Longrightarrow> Digest \<in> set (methods n) \<Longrightarrow>
     digest env W alg (Caller a) =
       ([Entered Digest, Normalized Digest alg, Invoked n Digest],
        settle (do_digest env n alg (\<lambda>t. W 0 a)))"
  by (simp add: digest_def after_def)

lemma importKey_reads_copy:
  "format = ''raw'' \<or> format = ''pkcs8'' \<or> format = ''spki'' \<Longrightarrow>
   normalize env ImportKey alg = Inr n \<Longrightarrow> ImportKey \<in> set (methods n) \<Longrightarrow>
   do_importKey env n format (Buffer (\<lambda>t. W 0 a)) alg ext us = Inl thrown \<Longrightarrow>
     importKey env W format (Buffer (Caller a)) alg ext us =
       ([Entered ImportKey, Normalized ImportKey alg, Invoked n ImportKey], Rejected thrown)"
  "format = ''raw'' \<or> format = ''pkcs8'' \<or> format = ''spki'' \<Longrightarrow>
   normalize env ImportKey alg = Inr n \<Longrightarrow> ImportKey \<in> set (methods n) \<Longrightarrow>
   do_importKey env n format (Buffer (\<lambda>t. W 0 a)) alg ext us = Inr result \<Longrightarrow>
   type result = ''public'' \<or> usages result \<noteq> [] \<Longrightarrow>
   recognizedKeyUsages_normalize env us = Inr normalized \<Longrightarrow>
     importKey env W format (Buffer (Caller a)) alg ext us =
       ([Entered ImportKey, Normalized ImportKey alg, Invoked n ImportKey],
        Resolved (result\<lparr>extractable := ext, usages := normalized\<rparr>))"
  by (auto simp add: importKey_def importKey_octets_def importKey_jwk_def after_def)

text \<open>
  \<open>unwrapKey\<close> has no \<open>slice()\<close> of its own. At step 13.2 it hands \<open>wrappedKey\<close> to the public
  \<open>decrypt\<close>, which copies it as above; at step 13.1 the octets are never read.
\<close>

lemma unwrapKey_13_1_ignores_the_octets:
  "normalize env UnwrapKey ua = Inr n \<Longrightarrow> UnwrapKey \<in> set (methods n) \<Longrightarrow>
     unwrapKey env W format wrappedKey uk ua uka ext us =
     unwrapKey env W' format wrappedKey' uk ua uka ext us"
  by (simp add: unwrapKey_def unwrapKey_promise_def split: sum.splits)

lemma reading_the_callers_buffer:
  "do_encrypt example AES_GCM alg key (view quiet (Caller 0)) = Inr [3, 2, 1]"
  "do_encrypt example AES_GCM alg key (view overwriting (Caller 0)) = Inr []"
  "snd (encrypt example overwriting (Name ''AES-GCM'') (secret_key AES_GCM True [''encrypt''])
     (Caller 0)) = Resolved [3, 2, 1]"
  by (simp_all add: example_def quiet_def overwriting_def encrypt_def after_def
      example_normalize_def lookup_simps secret_key_def AES_GCM_def)

text \<open>
  C7. The claim: the octets given to encrypt, decrypt, sign, verify, digest, unwrapKey and
  importKey are copied by value before the deferred computation goes on, so that what the
  caller writes into the buffer after the call does not change the result. The code copies
  with the argument's own \<open>slice()\<close>, which for a Node.js \<open>Buffer\<close> is a view on the caller's
  memory and no copy. The two callers below have the same memory at the instant of the
  call and one of them empties the buffer afterwards; the toy methods read at instant \<open>1\<close>.
  Given a \<open>Buffer\<close>, encrypt, digest, importKey with the format raw and unwrapKey (through
  the \<open>decrypt\<close> of step 13.2) end differently for the two callers.
\<close>

theorem node_buffer_is_not_copied:
  "quiet 0 = overwriting 0
   \<and> snd (encrypt example quiet (Name ''AES-GCM'') (secret_key AES_GCM True [''encrypt''])
        (NodeBuffer 0)) = Resolved [3, 2, 1]
   \<and> snd (encrypt example overwriting (Name ''AES-GCM'') (secret_key AES_GCM True [''encrypt''])
        (NodeBuffer 0)) = Resolved []
   \<and> snd (digest example quiet (Name ''SHA-256'') (NodeBuffer 0)) = Resolved [3]
   \<and> snd (digest example overwriting (Name ''SHA-256'') (NodeBuffer 0)) = Resolved [0]
   \<and> snd (importKey example quiet ''raw'' (Buffer (NodeBuffer 0)) (Name ''AES-GCM'') True
        [''encrypt'']) =
      Resolved \<lparr>type = ''secret'', extractable = True, algorithm = AES_GCM,
                usages = [''encrypt''], handle = [1, 2, 3]\<rparr>
   \<and> snd (importKey example overwriting ''raw'' (Buffer (NodeBuffer 0)) (Name ''AES-GCM'') True
        [''encrypt'']) = Rejected (DataError ''empty key'')
   \<and> snd (unwrapKey example quiet ''raw'' (NodeBuffer 0)
        (secret_key AES_GCM True [''unwrapKey'', ''decrypt''])
        (Name ''AES-GCM'') (Name ''AES-GCM'') True [''encrypt'']) =
      Resolved \<lparr>type = ''secret'', extractable = True, algorithm = AES_GCM,
                usages = [''encrypt''], handle = [3, 2, 1]\<rparr>
   \<and> snd (unwrapKey example overwriting ''raw'' (NodeBuffer 0)
        (secret_key AES_GCM True [''unwrapKey'', ''decrypt''])
        (Name ''AES-GCM'') (Name ''AES-GCM'') True [''encrypt'']) = Pending"
  by (simp add: run_defs digest_def example_defs overwriting_def names AES_GCM_def SHA_256_def)

subsection \<open>unwrapKey: what step 13 calls\<close>

lemma unwrapKey_reentered_rejected:
  "\<exists>e. snd (unwrapKey_reentered env) = Rejected e"
  by (simp add: unwrapKey_reentered_def unwrapKey_reentered_promise_def after_def
      split: sum.splits)

lemma unwrapKey_reentered_calls_nothing:
  "invocations (unwrapKey_reentered env) = []"
  by (simp add: unwrapKey_reentered_def unwrapKey_reentered_promise_def after_def
      invocations_def split: sum.splits)

text \<open>
  C3. The claim: after the validation, \<open>unwrapKey\<close> decrypts the wrapped octets by calling
  the \<open>unwrapKey\<close> method of the normalized algorithm when there is one, else its \<open>decrypt\<close>
  method, and does not enter the public methods of the dispatcher again. The code calls
  \<open>this.unwrapKey\<close> and \<open>this.decrypt\<close>. With the AES-GCM object (which has \<open>decrypt\<close>) and an
  unwrapping key whose only usage is \<open>unwrapKey\<close>, the public \<open>decrypt\<close> is entered, normalizes
  again and refuses the key, so that the \<open>decrypt\<close> method of the algorithm is never called.
  With the AES-KW object (which has \<open>unwrapKey\<close>) the public \<open>unwrapKey\<close> is entered with its
  arguments out of place and the method of the algorithm is never called either. Both runs
  print the error and leave the promise unsettled.
\<close>

theorem unwrapKey_reenters_dispatcher:
  \<open>unwrapKey example quiet ''raw'' (Caller 0) (secret_key AES_GCM True [''unwrapKey''])
      (Name ''AES-GCM'') (Name ''AES-GCM'') True [''encrypt''] =
     ([Entered UnwrapKey, Normalized UnwrapKey (Name ''AES-GCM''),
       Normalized Decrypt (Name ''AES-GCM''), Normalized ImportKey (Name ''AES-GCM''),
       Entered Decrypt, Normalized Decrypt (Name ''AES-GCM''),
       Logged (InvalidAccessError ''Key usages must include "decrypt"'')],
      Pending)
   \<and> unwrapKey example quiet ''raw'' (Caller 0) (secret_key AES_KW True [''unwrapKey''])
      (Name ''AES-KW'') (Name ''AES-GCM'') True [''encrypt''] =
     ([Entered UnwrapKey, Normalized UnwrapKey (Name ''AES-KW''),
       Normalized ImportKey (Name ''AES-KW''),
       Entered UnwrapKey, Normalized UnwrapKey NotGiven, Normalized Decrypt NotGiven,
       Logged (SyntaxError [])],
      Pending)\<close>
  by (simp add: run_defs example_defs names AES_GCM_def AES_KW_def)

subsection \<open>unwrapKey: the algorithm of the import\<close>

text \<open>
  Every descriptor \<open>unwrapKey\<close> hands to \<open>normalize\<close> is \<open>unwrapAlgorithm\<close>, or \<open>undefined\<close> in
  the nested call of step 13.1.
\<close>

lemma decrypt_normalizes: "Normalized op d \<in> set (fst (decrypt env W a k b)) \<Longrightarrow> d = a"
  by (auto simp add: decrypt_def after_def Let_def split: sum.splits if_splits)

lemma reentered_normalizes: "Normalized op d \<in> set (fst (unwrapKey_reentered env)) \<Longrightarrow> d = NotGiven"
  by (auto simp add: unwrapKey_reentered_def unwrapKey_reentered_promise_def after_def split: sum.splits)

lemma chain_normalizes:
  "Normalized op d \<in> set (fst (unwrapKey_chain env format nk uka ext us kp)) \<Longrightarrow>
     Normalized op d \<in> set (fst kp)"
  by (auto simp add: unwrapKey_chain_def unwrapKey_bytes_def after_def
      split: promise.splits sum.splits prod.splits if_splits)

lemma unwrapKey_promise_normalizes:
  "Normalized op d \<in> set (fst (unwrapKey_promise env W format wk uk ua uka ext us n)) \<Longrightarrow>
     d = ua \<or> d = NotGiven"
  by (auto simp add: unwrapKey_promise_def after_def
      dest!: chain_normalizes dest: decrypt_normalizes reentered_normalizes
      split: sum.splits if_splits)

lemma unwrapKey_normalizes_only_unwrapAlgorithm:
  "Normalized op d \<in> set (fst (unwrapKey env W format wk uk ua uka ext us)) \<Longrightarrow>
     d = ua \<or> d = NotGiven"
  by (auto simp add: unwrapKey_def after_def dest: unwrapKey_promise_normalizes
      split: sum.splits)

text \<open>
  C4. The claim: the descriptor \<open>unwrapKey\<close> normalizes under \<open>importKey\<close>, and whose algorithm
  object imports the unwrapped material, is \<open>unwrappedKeyAlgorithm\<close>, and a failure of that
  normalization rejects. The code normalizes \<open>unwrapAlgorithm\<close> a second time instead.
  Unwrapping an HMAC key with AES-GCM, the only descriptor normalized is the one of AES-GCM
  and the import is made by the AES-GCM object, whose key comes back; and with the unknown
  name ZZZ for the key's algorithm, which does not normalize, the promise is resolved all
  the same.
\<close>

theorem unwrapKey_imports_under_unwrapAlgorithm:
  "unwrapKey example quiet ''raw'' (Caller 0) (secret_key AES_GCM True [''unwrapKey'', ''decrypt''])
      (Name ''AES-GCM'') (Name ''HMAC'') True [''sign''] =
     ([Entered UnwrapKey, Normalized UnwrapKey (Name ''AES-GCM''),
       Normalized Decrypt (Name ''AES-GCM''), Normalized ImportKey (Name ''AES-GCM''),
       Entered Decrypt, Normalized Decrypt (Name ''AES-GCM''), Invoked AES_GCM Decrypt,
       Invoked AES_GCM ImportKey],
      Resolved \<lparr>type = ''secret'', extractable = True, algorithm = AES_GCM, usages = [''sign''],
                handle = [3, 2, 1]\<rparr>)
   \<and> normalize example ImportKey (Name ''ZZZ'') = Inl (NotSupportedError ''ZZZ'')
   \<and> snd (unwrapKey example quiet ''raw'' (Caller 0)
        (secret_key AES_GCM True [''unwrapKey'', ''decrypt''])
        (Name ''AES-GCM'') (Name ''ZZZ'') True [''encrypt'']) =
      Resolved \<lparr>type = ''secret'', extractable = True, algorithm = AES_GCM, usages = [''encrypt''],
                handle = [3, 2, 1]\<rparr>"
  by (simp add: run_defs example_defs names AES_GCM_def)

subsection \<open>unwrapKey: failures after the promise is created\<close>

lemma unwrapKey_chain_never_rejects:
  "snd (unwrapKey_chain env format nk uka ext us keyPromise) \<noteq> Rejected e"
  by (auto simp add: unwrapKey_chain_def after_def split: promise.splits sum.splits prod.splits)

text \<open>
  C5. The claim: a failure inside \<open>unwrapKey\<close> after its promise is created (of the
  decryption, of the import, or the \<open>SyntaxError\<close> for a secret key without usages) rejects
  the promise with that error. The chain ends in \<open>.catch(console.log)\<close>: in each of the three
  cases the error is printed and the promise stays unsettled. The three runs: wrapped octets
  the \<open>decrypt\<close> method refuses; a format the \<open>importKey\<close> method refuses; no usages for the
  imported secret key.
\<close>

theorem unwrapKey_swallows_errors:
  "unwrapKey example quiet ''raw'' (Caller 1) (secret_key AES_GCM True [''unwrapKey'', ''decrypt''])
      (Name ''AES-GCM'') (Name ''AES-GCM'') True [''encrypt''] =
     ([Entered UnwrapKey, Normalized UnwrapKey (Name ''AES-GCM''),
       Normalized Decrypt (Name ''AES-GCM''), Normalized ImportKey (Name ''AES-GCM''),
       Entered Decrypt, Normalized Decrypt (Name ''AES-GCM''), Invoked AES_GCM Decrypt,
       Logged (OperationError ''tag'')],
      Pending)
   \<and> unwrapKey example quiet ''spki'' (Caller 0) (secret_key AES_GCM True [''unwrapKey'', ''decrypt''])
      (Name ''AES-GCM'') (Name ''AES-GCM'') True [''encrypt''] =
     ([Entered UnwrapKey, Normalized UnwrapKey (Name ''AES-GCM''),
       Normalized Decrypt (Name ''AES-GCM''), Normalized ImportKey (Name ''AES-GCM''),
       Entered Decrypt, Normalized Decrypt (Name ''AES-GCM''), Invoked AES_GCM Decrypt,
       Invoked AES_GCM ImportKey, Logged (NotSupportedError ''spki'')],
      Pending)
   \<and> unwrapKey example quiet ''raw'' (Caller 0) (secret_key AES_GCM True [''unwrapKey'', ''decrypt''])
      (Name ''AES-GCM'') (Name ''AES-GCM'') True [] =
     ([Entered UnwrapKey, Normalized UnwrapKey (Name ''AES-GCM''),
       Normalized Decrypt (Name ''AES-GCM''), Normalized ImportKey (Name ''AES-GCM''),
       Entered Decrypt, Normalized Decrypt (Name ''AES-GCM''), Invoked AES_GCM Decrypt,
       Invoked AES_GCM ImportKey, Logged (SyntaxError ''Usages cannot be empty'')],
      Pending)"
  by (simp add: run_defs example_defs names AES_GCM_def)

subsection \<open>importKey: format and material\<close>

lemma importKey_jwk_throws_only_from_constructor:
  "importKey_jwk env W format keyData = Inl thrown \<Longrightarrow>
     format = ''jwk'' \<and> new_JsonWebKey env (map_material (view W) keyData) = Inl thrown"
  by (simp add: importKey_jwk_def split: if_splits sum.splits)

lemma importKey_refuses_jwk_for_octet_formats:
  "normalize env ImportKey alg = Inr n \<Longrightarrow>
   format = ''raw'' \<or> format = ''pkcs8'' \<or> format = ''spki'' \<Longrightarrow>
     importKey env W format (JsonWebKey j) alg ext us =
       ([Entered ImportKey, Normalized ImportKey alg], Rejected (TypeError []))"
  by (simp add: importKey_def importKey_octets_def after_def)

lemma importKey_refuses_object_for_octet_formats:
  "normalize env ImportKey alg = Inr n \<Longrightarrow>
   format = ''raw'' \<or> format = ''pkcs8'' \<or> format = ''spki'' \<Longrightarrow>
     importKey env W format (Object j) alg ext us =
       ([Entered ImportKey, Normalized ImportKey alg],
        Rejected (TypeError ''keyData.slice is not a function''))"
  by (simp add: importKey_def importKey_octets_def after_def)

text \<open>
  C8. The claim: \<open>importKey\<close> rejects with a \<open>TypeError\<close> when the format is raw, pkcs8 or spki
  and the material is a JSON Web Key, and also when the format is jwk and the material is
  an octet buffer. The first half holds (the two lemmas above). For the second the code tests
  \<open>keyData instanceof JsonWebKey\<close> after it has replaced \<open>keyData\<close> by \<open>new JsonWebKey(keyData)\<close>,
  which is an instance whatever it was made from: with the format jwk and a buffer the
  \<open>importKey\<close> method of the algorithm is called with the instance made from the buffer, and
  the promise is settled by that method (here it misses \<open>kty\<close>), not by a \<open>TypeError\<close> of the
  dispatcher.
\<close>

theorem importKey_jwk_accepts_buffer:
  "importKey example quiet ''jwk'' (Buffer (Caller 0)) (Name ''AES-GCM'') True [''encrypt''] =
     ([Entered ImportKey, Normalized ImportKey (Name ''AES-GCM''), Invoked AES_GCM ImportKey],
      Rejected (DataError ''kty''))"
  by (simp add: run_defs example_defs names AES_GCM_def)

end
